theory Spec2Isabelle
  imports Complex_Main
begin

section \<open>Data model (types/game.ts)\<close>

text \<open>
  JavaScript numbers are modelled as mathematical numbers: \<open>real\<close> for positions, times
  and rates, \<open>int\<close> for the counters that only ever hold integers (score, combo, level,
  hit counters) and \<open>nat\<close> for the level index. Rounding of IEEE doubles is not modelled.
  Field names follow the source; the fields of Portal, Whip, VisualEffect and LevelData
  that share a name with another record or with a HOL constant carry the prefix
  \<open>p_\<close>, \<open>w_\<close>, \<open>e_\<close> or \<open>l_\<close>.
\<close>

datatype status = Menu | Playing | Paused | Gameover | Level_complete | Transitioning

datatype quality = Perfect | Great | Good | Hit | Miss

datatype portalType = Bass | Snare | Hihat

datatype lifecycle = Approach | Active | Missed

datatype difficulty = Easy | Normal | Hard | Expert

datatype gameMode = Practice | Arcade | Endless | Story

datatype waveType = Sine | Cosine | Sawtooth | Square

datatype effectType =
  Crack | Portal_hit | Portal_travel | Particle | Level_transition | Wave_trail | Beat_pulse

text \<open>
  Identifiers are template strings such as \<open>portal_${Date.now()}_${Math.random()}\<close>:
  a prefix and the numbers spliced into it.
\<close>

datatype ident = Ident string "real list"

type_synonym point = "real \<times> real"

record gameState =
  status :: status
  score :: int
  combo :: int
  health :: real
  level :: int
  currentSong :: string
  currentSongProgress :: real
  maxCombo :: int
  accuracy :: real
  gameMode :: gameMode
  levelProgress :: real
  portalsHit :: int
  portalsTotal :: int
  currentDifficulty :: difficulty
  transitionActive :: bool

record portal =
  p_id :: ident
  p_type :: portalType
  p_x :: real
  p_y :: real
  p_z :: real
  p_size :: real
  p_speed :: real
  horizontalSpeed :: real
  p_color :: string
  p_frequency :: real
  frequencyRange :: string
  spawnTime :: real
  targetTime :: real
  p_position :: lifecycle
  hitQuality :: "quality option"
  reachedTime :: "real option"
  isTraveling :: "bool option"
  travelProgress :: "real option"
  isMoving :: bool
  travelLane :: int
  beatMatch :: bool

record wavePattern =
  amplitude :: real
  wp_frequency :: real
  phase :: real
  decay :: real
  waveType :: waveType

record trajectory =
  t_start :: point
  t_control :: point
  t_end :: point

record whip =
  w_id :: ident
  w_position :: point
  targetPosition :: point
  trajectory :: trajectory
  velocity :: real
  isActive :: bool
  isExtending :: bool
  extensionProgress :: real
  trailPoints :: "(real \<times> real \<times> real) list"
  cosmicEnergy :: real
  whipLength :: real
  whipAngle :: real
  createdTime :: real
  hitDetection :: bool
  w_wavePattern :: wavePattern
  cursorSpeed :: real

text \<open>The payload \<open>data: any\<close> of a visual effect, one constructor per shape the engine builds.\<close>

datatype effectData =
  BeatData portalType
  | TravelData portalType ident
  | LevelTransitionData nat
  | WaveTrailData wavePattern real bool
  | TouchPulseData string string int
  | HitData quality portalType
  | MissData string

record visualEffect =
  e_id :: ident
  e_type :: effectType
  e_position :: "real \<times> real \<times> real"
  startTime :: real
  duration :: real
  e_data :: effectData

record levelData =
  l_id :: int
  l_name :: string
  description :: string
  difficulty :: difficulty
  requiredHits :: int
  portalSpeed :: real
  spawnRate :: real
  background :: string
  music :: string
  timeLimit :: real
  bonusScore :: int

section \<open>Collaborators and engine state (GameEngine)\<close>

text \<open>
  The audio manager is a collaborator the engine only calls into; the calls are kept in a
  log, in order. A \<open>setTimeout\<close> is an entry of the list of pending timers: the delay in
  milliseconds and the method the callback calls.
\<close>

datatype audioCall =
  PlaySound string real | PlayMusic string real | PauseAll | ResumeAll | StopAll

datatype callback = CallTriggerLevelTransition | CallProceedToNextLevel

record engine =
  gameState :: gameState
  portals :: "portal list"
  activeWhips :: "whip list"
  visualEffects :: "visualEffect list"
  currentLevelIndex :: nat
  levelStartTime :: real
  currentDimension :: string
  portalSpawnTimer :: real
  beatTimer :: real
  currentBeat :: int
  beatInterval :: real
  audioEnabled :: bool
  lastTime :: real
  gameTime :: real
  gameStartTime :: real
  canvasWidth :: real
  canvasHeight :: real
  audioLog :: "audioCall list"
  timers :: "(real \<times> callback) list"

definition playSound :: "string \<Rightarrow> real \<Rightarrow> engine \<Rightarrow> engine" where
  "playSound name' volume s = s\<lparr>audioLog := audioLog s @ [PlaySound name' volume]\<rparr>"

definition playMusic :: "string \<Rightarrow> real \<Rightarrow> engine \<Rightarrow> engine" where
  "playMusic name' volume s = s\<lparr>audioLog := audioLog s @ [PlayMusic name' volume]\<rparr>"

definition stopAll :: "engine \<Rightarrow> engine" where
  "stopAll s = s\<lparr>audioLog := audioLog s @ [StopAll]\<rparr>"

definition setTimeout :: "callback \<Rightarrow> real \<Rightarrow> engine \<Rightarrow> engine" where
  "setTimeout cb delay s = s\<lparr>timers := timers s @ [(delay, cb)]\<rparr>"

definition levels :: "levelData list" where
  "levels =
    [\<lparr>l_id = 1, l_name = ''Cosmic Void'', description = ''Welcome to the wormhole dimensions'',
       difficulty = Easy, requiredHits = 10, portalSpeed = 3 / 10, spawnRate = 5 / 10,
       background = ''cosmic_void'', music = ''cosmic_theme_music.mp3'', timeLimit = 60,
       bonusScore = 1000\<rparr>,
     \<lparr>l_id = 2, l_name = ''Stellar Nebula'', description = ''Navigate through the stellar clouds'',
       difficulty = Normal, requiredHits = 15, portalSpeed = 4 / 10, spawnRate = 7 / 10,
       background = ''stellar_nebula'', music = ''rhythm_game_energetic.mp3'', timeLimit = 75,
       bonusScore = 2000\<rparr>,
     \<lparr>l_id = 3, l_name = ''Quantum Field'', description = ''Master the quantum beats'',
       difficulty = Hard, requiredHits = 20, portalSpeed = 5 / 10, spawnRate = 9 / 10,
       background = ''quantum_field'', music = ''epic_journey_music.mp3'', timeLimit = 90,
       bonusScore = 3000\<rparr>]"

definition getCurrentLevel :: "engine \<Rightarrow> levelData option" where
  "getCurrentLevel s =
     (if currentLevelIndex s < length levels then Some (levels ! currentLevelIndex s) else None)"

text \<open>
  The engine as its constructor and field initialisers leave it, on a canvas of the given
  width and height.
\<close>

definition newGameEngine :: "real \<Rightarrow> real \<Rightarrow> engine" where
  "newGameEngine w h =
     \<lparr>gameState =
        \<lparr>status = Menu, score = 0, combo = 0, health = 100, level = 1,
         currentSong = ''cosmic_journey'', currentSongProgress = 0, maxCombo = 0,
         accuracy = 100, gameMode = Practice, levelProgress = 0, portalsHit = 0,
         portalsTotal = 0, currentDifficulty = Easy, transitionActive = False\<rparr>,
      portals = [], activeWhips = [], visualEffects = [], currentLevelIndex = 0,
      levelStartTime = 0, currentDimension = ''cosmic_void'', portalSpawnTimer = 0,
      beatTimer = 0, currentBeat = 0, beatInterval = 500, audioEnabled = True,
      lastTime = 0, gameTime = 0, gameStartTime = 0, canvasWidth = w, canvasHeight = h,
      audioLog = [], timers = []\<rparr>"

definition startGame :: "real \<Rightarrow> engine \<Rightarrow> engine" where
  "startGame now s =
     (let s1 = s\<lparr>gameState := (gameState s)\<lparr>status := Playing\<rparr>,
                 gameStartTime := now, levelStartTime := now, gameTime := 0,
                 currentBeat := 0, beatTimer := 0\<rparr>;
          s2 = s1\<lparr>gameState := (gameState s1)
                  \<lparr>status := Playing, levelProgress := 0, portalsHit := 0,
                   portalsTotal := 0, transitionActive := False\<rparr>\<rparr>;
          s3 = s2\<lparr>portals := [], activeWhips := [], visualEffects := []\<rparr>
      in case getCurrentLevel s3 of
           Some currentLevel \<Rightarrow> playMusic (music currentLevel) (7 / 10) s3
         | None \<Rightarrow> playMusic ''cosmic_theme_music.mp3'' (7 / 10) s3)"

section \<open>Score, combo and health bookkeeping\<close>

text \<open>
  \<open>updateGameState\<close> merges a partial record into the game state; each call site is
  written as the record update of the fields it passes.
\<close>

definition endGame :: "engine \<Rightarrow> engine" where
  "endGame s = stopAll (s\<lparr>gameState := (gameState s)\<lparr>status := Gameover\<rparr>\<rparr>)"

definition updateCombo :: "int \<Rightarrow> engine \<Rightarrow> engine" where
  "updateCombo increment s =
     (let newCombo = max 0 (combo (gameState s) + increment);
          maxCombo' = max (maxCombo (gameState s)) newCombo
      in s\<lparr>gameState := (gameState s)\<lparr>combo := newCombo, maxCombo := maxCombo'\<rparr>\<rparr>)"

definition updateHealth :: "real \<Rightarrow> engine \<Rightarrow> engine" where
  "updateHealth change s =
     (let newHealth = max 0 (min 100 (health (gameState s) + change));
          s1 = s\<lparr>gameState := (gameState s)\<lparr>health := newHealth\<rparr>\<rparr>
      in if newHealth \<le> 0 then endGame s1 else s1)"

definition comboMultiplier :: "int \<Rightarrow> real" where
  "comboMultiplier c = min (1 + real_of_int c * (2 / 100)) 3"

definition handleScore :: "quality \<Rightarrow> real \<Rightarrow> engine \<Rightarrow> engine" where
  "handleScore q baseScore s =
     (let finalScore = \<lfloor>baseScore * comboMultiplier (combo (gameState s))\<rfloor>;
          s1 = s\<lparr>gameState := (gameState s)\<lparr>score := score (gameState s) + finalScore\<rparr>\<rparr>;
          s2 = updateCombo 1 s1
      in if combo (gameState s2) > 0 \<and> combo (gameState s2) mod 10 = 0
         then playSound ''combo_bonus.mp3'' (5 / 10) s2 else s2)"

definition createMissEffect :: "real \<Rightarrow> real \<Rightarrow> portal \<Rightarrow> engine \<Rightarrow> engine" where
  "createMissEffect now r p s =
     s\<lparr>visualEffects := visualEffects s @
        [\<lparr>e_id = Ident ''miss'' [now, r], e_type = Particle,
          e_position = (p_x p, p_y p, p_z p), startTime = now, duration = 500,
          e_data = MissData ''miss''\<rparr>]\<rparr>"

text \<open>
  \<open>handlePortalMiss\<close> writes \<open>hitQuality\<close> into the portal object it is given and changes the
  engine; the portal after the call is returned next to the engine. \<open>now\<close> is
  \<open>Date.now()\<close> and \<open>r\<close> the \<open>Math.random()\<close> of the effect's id.
\<close>

definition handlePortalMiss :: "real \<Rightarrow> real \<Rightarrow> portal \<Rightarrow> engine \<Rightarrow> portal \<times> engine" where
  "handlePortalMiss now r p s =
     (let p1 = p\<lparr>hitQuality := Some Miss\<rparr>;
          s1 = updateCombo 0 s;
          s2 = updateHealth (- 1) s1;
          s3 = playSound ''miss_alert.mp3'' (6 / 10) s2
      in (p1, createMissEffect now r p1 s3))"

section \<open>Timing judge of the live hit path (handlePortalHit)\<close>

text \<open>
  The first statements of \<open>handlePortalHit\<close>: from the portal's beatMatch flag and the
  absolute time difference in milliseconds to the quality and the base score.
\<close>

definition judge :: "bool \<Rightarrow> real \<Rightarrow> quality \<times> real" where
  "judge bm timeDiff =
     (if bm \<and> timeDiff \<le> 100 then
        (let q = (if timeDiff \<le> 30 then Perfect else if timeDiff \<le> 60 then Great else Good)
         in (q, if q = Perfect then 1500 else if q = Great then 1200 else 900))
      else
        (let q = (if timeDiff \<le> 30 then Perfect else if timeDiff \<le> 60 then Great
                  else if timeDiff \<le> 100 then Good else if timeDiff \<le> 200 then Hit else Miss)
         in (q, if q = Perfect then 1000 else if q = Great then 800
                else if q = Good then 600 else if q = Hit then 400 else 0)))"

section \<open>Level progression\<close>

definition availableDimensions :: "string list" where
  "availableDimensions =
     [''cosmic_void'', ''stellar_nebula'', ''quantum_field'', ''temporal_rift'',
      ''dark_matter_cloud'', ''plasma_storm'', ''crystal_galaxy'', ''void_walker_realm'']"

text \<open>
  \<open>r\<close> is the result of \<open>Math.random()\<close>, a number in \<open>[0, 1)\<close>, so the index is in range;
  outside that interval the array read yields \<open>undefined\<close>, which the template string
  prints as the word.
\<close>

definition getRandomDimension :: "real \<Rightarrow> string" where
  "getRandomDimension r =
     (let i = \<lfloor>r * real (length availableDimensions)\<rfloor>
      in if 0 \<le> i \<and> nat i < length availableDimensions then availableDimensions ! nat i
         else ''undefined'')"

definition changeDimension :: "real \<Rightarrow> engine \<Rightarrow> engine" where
  "changeDimension r s =
     (let newDimension = getRandomDimension r
      in playMusic (newDimension @ ''_theme.mp3'') (6 / 10) (s\<lparr>currentDimension := newDimension\<rparr>))"

definition updateCurrentLevel :: "engine \<Rightarrow> engine" where
  "updateCurrentLevel s =
     (case getCurrentLevel s of
        Some currentLevel \<Rightarrow>
          s\<lparr>gameState := (gameState s)\<lparr>currentDifficulty := difficulty currentLevel,
                                         currentSong := music currentLevel\<rparr>\<rparr>
      | None \<Rightarrow> s)"

definition proceedToNextLevel :: "real \<Rightarrow> real \<Rightarrow> engine \<Rightarrow> engine" where
  "proceedToNextLevel now r s =
     (let s1 = (case getCurrentLevel s of
                  Some currentLevel \<Rightarrow>
                    s\<lparr>gameState := (gameState s)
                        \<lparr>score := score (gameState s) + bonusScore currentLevel,
                         level := level (gameState s) + 1\<rparr>\<rparr>
                | None \<Rightarrow> s);
          s2 = s1\<lparr>currentLevelIndex := currentLevelIndex s1 + 1\<rparr>
      in if currentLevelIndex s2 < length levels then
           (let s3 = s2\<lparr>gameState := (gameState s2)
                        \<lparr>status := Playing, transitionActive := False,
                         portalsHit := 0, portalsTotal := 0\<rparr>\<rparr>;
                s4 = updateCurrentLevel s3;
                s5 = changeDimension r s4
            in s5\<lparr>portals := [], levelStartTime := now\<rparr>)
         else stopAll (s2\<lparr>gameState := (gameState s2)\<lparr>status := Gameover\<rparr>\<rparr>))"

definition triggerLevelTransition :: "real \<Rightarrow> engine \<Rightarrow> engine" where
  "triggerLevelTransition now s =
     (if status (gameState s) \<noteq> Playing then s
      else
        (let s1 = s\<lparr>gameState := (gameState s)
                     \<lparr>status := Level_complete, transitionActive := True\<rparr>\<rparr>;
             s2 = playSound ''combo_bonus.mp3'' (8 / 10) s1;
             s3 = s2\<lparr>visualEffects := visualEffects s2 @
                     [\<lparr>e_id = Ident ''level_transition'' [now], e_type = Level_transition,
                       e_position = (5 / 10, 5 / 10, 0), startTime = now, duration = 3000,
                       e_data = LevelTransitionData (currentLevelIndex s2)\<rparr>]\<rparr>
         in setTimeout CallProceedToNextLevel 3000 s3))"

definition checkLevelCompletion :: "real \<Rightarrow> engine \<Rightarrow> engine" where
  "checkLevelCompletion now s =
     (case getCurrentLevel s of
        None \<Rightarrow> s
      | Some currentLevel \<Rightarrow>
          (let progress = real_of_int (portalsHit (gameState s))
                            / real_of_int (requiredHits currentLevel) * 100;
               s1 = s\<lparr>gameState := (gameState s)\<lparr>levelProgress := progress\<rparr>\<rparr>
           in if portalsHit (gameState s1) \<ge> requiredHits currentLevel
              then triggerLevelTransition now s1 else s1))"

text \<open>A pending timer fires by calling the method its callback names.\<close>

fun runCallback :: "callback \<Rightarrow> real \<Rightarrow> real \<Rightarrow> engine \<Rightarrow> engine" where
  "runCallback CallTriggerLevelTransition now r s = triggerLevelTransition now s"
| "runCallback CallProceedToNextLevel now r s = proceedToNextLevel now r s"

definition restartGame :: "engine \<Rightarrow> engine" where
  "restartGame s =
     (let s1 = s\<lparr>gameState := (gameState s)
                  \<lparr>status := Menu, score := 0, combo := 0, health := 100, level := 1,
                   maxCombo := 0, accuracy := 100, currentSongProgress := 0,
                   levelProgress := 0, portalsHit := 0, portalsTotal := 0,
                   currentDifficulty := Easy, transitionActive := False\<rparr>\<rparr>;
          s2 = updateCurrentLevel (s1\<lparr>currentLevelIndex := 0\<rparr>);
          s3 = s2\<lparr>portals := [], activeWhips := [], visualEffects := [],
                  gameStartTime := 0, gameTime := 0, levelStartTime := 0,
                  currentBeat := 0, beatTimer := 0\<rparr>
      in stopAll s3)"

section \<open>Hit resolution (handlePortalHit)\<close>

definition triggerPortalTravel :: "real \<Rightarrow> portal \<Rightarrow> engine \<Rightarrow> portal \<times> engine" where
  "triggerPortalTravel now p s =
     (let p1 = p\<lparr>isTraveling := Some True, travelProgress := Some 0\<rparr>;
          s1 = playSound ''portal_travel_swoosh.mp3'' (9 / 10) s;
          s2 = s1\<lparr>visualEffects := visualEffects s1 @
                  [\<lparr>e_id = Ident ''travel'' [now], e_type = Portal_travel,
                    e_position = (p_x p1, p_y p1, p_z p1), startTime = now, duration = 2000,
                    e_data = TravelData (p_type p1) (p_id p1)\<rparr>]\<rparr>
      in (p1, case getCurrentLevel s2 of
                Some currentLevel \<Rightarrow>
                  if portalsHit (gameState s2) \<ge> requiredHits currentLevel
                  then setTimeout CallTriggerLevelTransition 1000 s2 else s2
              | None \<Rightarrow> s2))"

definition createHitEffect :: "real \<Rightarrow> real \<Rightarrow> portal \<Rightarrow> quality \<Rightarrow> engine \<Rightarrow> engine" where
  "createHitEffect now r p q s =
     s\<lparr>visualEffects := visualEffects s @
        [\<lparr>e_id = Ident ''hit'' [now, r], e_type = Portal_hit,
          e_position = (p_x p, p_y p, p_z p), startTime = now, duration = 1000,
          e_data = HitData q (p_type p)\<rparr>]\<rparr>"

text \<open>
  \<open>handlePortalHit now r p i s\<close>: the portal \<open>p\<close> and the whip at index \<open>i\<close> of
  \<open>activeWhips\<close>. The portal object is written to (\<open>hitQuality\<close>, the travel fields) and
  then leaves \<open>portals\<close> with every portal of its id; the whip object is written to in
  place.
\<close>

definition handlePortalHit :: "real \<Rightarrow> real \<Rightarrow> portal \<Rightarrow> nat \<Rightarrow> engine \<Rightarrow> engine" where
  "handlePortalHit now r p i s =
     (let timeDiff = \<bar>now - targetTime p\<bar>;
          (q, baseScore) = judge (beatMatch p) timeDiff
      in if q \<noteq> Miss then
           (let p1 = p\<lparr>hitQuality := Some q\<rparr>;
                s1 = handleScore q baseScore s;
                (p2, s2) = triggerPortalTravel now p1 s1;
                s3 = createHitEffect now r p2 q s2;
                soundName = (if q = Perfect then ''perfect_hit_chime.mp3''
                             else ''good_hit_buzz.mp3'');
                s4 = playSound soundName (8 / 10) s3;
                s5 = s4\<lparr>gameState := (gameState s4)
                        \<lparr>portalsHit := portalsHit (gameState s4) + 1,
                         portalsTotal := portalsTotal (gameState s4) + 1\<rparr>\<rparr>;
                s6 = checkLevelCompletion now s5;
                s7 = s6\<lparr>portals := filter (\<lambda>p'. p_id p' \<noteq> p_id p2) (portals s6)\<rparr>
            in s7\<lparr>activeWhips := (activeWhips s7)
                    [i := (activeWhips s7 ! i)\<lparr>hitDetection := False\<rparr>]\<rparr>)
         else s)"

section \<open>Geometry and collision pass\<close>

definition getWhipCurrentPosition :: "whip \<Rightarrow> point" where
  "getWhipCurrentPosition w =
     (let t = extensionProgress w;
          start = t_start (trajectory w);
          control = t_control (trajectory w);
          end' = t_end (trajectory w)
      in ((1 - t) ^ 2 * fst start + 2 * (1 - t) * t * fst control + t ^ 2 * fst end',
          (1 - t) ^ 2 * snd start + 2 * (1 - t) * t * snd control + t ^ 2 * snd end'))"

definition isWhipCollidingWithPortal :: "engine \<Rightarrow> whip \<Rightarrow> portal \<Rightarrow> bool" where
  "isWhipCollidingWithPortal s w p =
     (let currentPos = getWhipCurrentPosition w;
          portalPos = (p_x p * canvasWidth s, p_y p * canvasHeight s);
          distance = sqrt ((fst currentPos - fst portalPos) ^ 2
                           + (snd currentPos - snd portalPos) ^ 2);
          hitRadius = p_size p * canvasWidth s * (8 / 10)
      in distance < hitRadius)"

text \<open>
  \<open>checkCollisions\<close> is two nested \<open>forEach\<close>. The outer one walks the whip array, which
  the pass never resizes, by index; the inner one walks the portal array as it was when
  the inner loop started (a hit replaces \<open>this.portals\<close> by a filtered copy, the loop goes
  on over the old array). One clock value and one random draw serve the whole pass.
\<close>

fun collidePortals :: "real \<Rightarrow> real \<Rightarrow> nat \<Rightarrow> portal list \<Rightarrow> engine \<Rightarrow> engine" where
  "collidePortals now r i [] s = s"
| "collidePortals now r i (p # ps) s =
     collidePortals now r i ps
       (if p_position p \<noteq> Active then s
        else if isWhipCollidingWithPortal s (activeWhips s ! i) p
             then handlePortalHit now r p i s else s)"

fun collideWhips :: "real \<Rightarrow> real \<Rightarrow> nat list \<Rightarrow> engine \<Rightarrow> engine" where
  "collideWhips now r [] s = s"
| "collideWhips now r (i # is) s =
     collideWhips now r is
       (if \<not> hitDetection (activeWhips s ! i) then s
        else collidePortals now r i (portals s) s)"

definition checkCollisions :: "real \<Rightarrow> real \<Rightarrow> engine \<Rightarrow> engine" where
  "checkCollisions now r s = collideWhips now r [0 ..< length (activeWhips s)] s"

section \<open>Entity lifecycle: whips\<close>

text \<open>
  \<open>updateWhips\<close> filters the whip array with a callback that also writes to the whip it
  is asked about: \<open>updateWhip\<close> is that callback, returning the whip as written and the
  callback's verdict.
\<close>

definition updateWhip :: "real \<Rightarrow> whip \<Rightarrow> whip \<times> bool" where
  "updateWhip deltaTime w =
     (let w1 = w\<lparr>extensionProgress := extensionProgress w + deltaTime * 2\<rparr>
      in if extensionProgress w1 \<ge> 1
         then (w1\<lparr>extensionProgress := 1, isActive := False\<rparr>, False)
         else (w1\<lparr>trailPoints :=
                    filter (\<lambda>(tx, ty, alpha). alpha > 0)
                      (map (\<lambda>(tx, ty, alpha). (tx, ty, alpha - deltaTime * 2))
                         (trailPoints w1))\<rparr>, True))"

definition updateWhips :: "real \<Rightarrow> engine \<Rightarrow> engine" where
  "updateWhips deltaTime s =
     s\<lparr>activeWhips := map fst (filter snd (map (updateWhip deltaTime) (activeWhips s)))\<rparr>"

section \<open>Entity lifecycle: portals\<close>

text \<open>
  The random draws and the clock reading of one tick. \<open>Math.random()\<close> yields a number in
  \<open>[0, 1)\<close>; each call of the source is a named draw. \<open>Date.now()\<close> is read once per tick.
\<close>

record spawnRand =
  rType :: real
  rLane :: real
  rJitter :: real
  rId :: real
  rSpeed :: real
  rFreq :: real

record tickEnv =
  clock :: real
  beatRoll :: real
  beatSpawn :: spawnRand
  timerSpawn :: spawnRand
  hitRoll :: real

text \<open>
  \<open>getPortalSize\<close> and \<open>getPortalColor\<close> switch on the type's string; the engine calls
  them with one of the three frequency classes only, the \<open>default\<close> branch is not reached.
\<close>

fun getPortalSize :: "portalType \<Rightarrow> real" where
  "getPortalSize Bass = 8 / 100"
| "getPortalSize Snare = 6 / 100"
| "getPortalSize Hihat = 4 / 100"

fun getPortalColor :: "portalType \<Rightarrow> string" where
  "getPortalColor Bass = ''#8B5A96''"
| "getPortalColor Snare = ''#00FFFF''"
| "getPortalColor Hihat = ''#FFFF00''"

text \<open>\<open>FREQUENCY_MAPPING\<close>: min, max and range of each frequency class.\<close>

fun frequencyMapping :: "portalType \<Rightarrow> real \<times> real \<times> string" where
  "frequencyMapping Bass = (50, 120, ''50-120Hz'')"
| "frequencyMapping Snare = (150, 300, ''150-300Hz'')"
| "frequencyMapping Hihat = (1000, 8000, ''1-8kHz+'')"

text \<open>
  Reading a three-element array at \<open>Math.floor(Math.random() * 3)\<close>: the index is 0, 1
  or 2 for a draw in \<open>[0, 1)\<close>; the last entry stands for every other index.
\<close>

definition pick3 :: "'a \<Rightarrow> 'a \<Rightarrow> 'a \<Rightarrow> int \<Rightarrow> 'a" where
  "pick3 a b c i = (if i = 0 then a else if i = 1 then b else c)"

definition spawnRandomPortal :: "real \<Rightarrow> spawnRand \<Rightarrow> engine \<Rightarrow> engine" where
  "spawnRandomPortal now sr s =
     (let type = pick3 Bass Snare Hihat \<lfloor>rType sr * 3\<rfloor>;
          lane = \<lfloor>rLane sr * 3\<rfloor>;
          y = pick3 (3 / 10) (5 / 10) (7 / 10) lane + (rJitter sr - 5 / 10) * (1 / 10);
          speed = (case getCurrentLevel s of
                     Some currentLevel \<Rightarrow> portalSpeed currentLevel | None \<Rightarrow> 3 / 10);
          (fmin, fmax, frange) = frequencyMapping type;
          newPortal =
            \<lparr>p_id = Ident ''portal'' [now, rId sr], p_type = type, p_x = - (1 / 10), p_y = y,
             p_z = 0, p_size = getPortalSize type, p_speed = speed,
             horizontalSpeed = speed * (5 / 10 + rSpeed sr * (5 / 10)),
             p_color = getPortalColor type,
             p_frequency = fmin + rFreq sr * (fmax - fmin), frequencyRange = frange,
             spawnTime = now, targetTime = now + 2000, p_position = Approach,
             hitQuality = None, reachedTime = None, isTraveling = None,
             travelProgress = None, isMoving = True, travelLane = lane, beatMatch = False\<rparr>
      in s\<lparr>portals := portals s @ [newPortal]\<rparr>)"

definition spawnPortals :: "real \<Rightarrow> tickEnv \<Rightarrow> engine \<Rightarrow> engine" where
  "spawnPortals deltaTime env s =
     (case getCurrentLevel s of
        None \<Rightarrow> s
      | Some currentLevel \<Rightarrow>
          (let s1 = s\<lparr>portalSpawnTimer := portalSpawnTimer s + deltaTime\<rparr>;
               spawnInterval = 1 / spawnRate currentLevel
           in if portalSpawnTimer s1 \<ge> spawnInterval
              then spawnRandomPortal (clock env) (timerSpawn env) (s1\<lparr>portalSpawnTimer := 0\<rparr>)
              else s1))"

definition spawnPortalOnBeat :: "tickEnv \<Rightarrow> engine \<Rightarrow> engine" where
  "spawnPortalOnBeat env s =
     (let spawnChance = (if currentBeat s mod 4 = 0 then 8 / 10
                         else if currentBeat s mod 2 = 0 then 6 / 10 else 3 / 10)
      in if beatRoll env < spawnChance
         then spawnRandomPortal (clock env) (beatSpawn env) s else s)"

text \<open>
  \<open>updateFroggerPortals\<close> walks the portal array as it was when the loop started and, for
  a portal gone off-screen, replaces \<open>this.portals\<close> by a copy without the portals of that
  id. The objects are shared between the old array and the copies: \<open>froggerLoop\<close> keeps
  each object of the old array with a flag saying whether \<open>this.portals\<close> still holds it,
  the objects already visited on the left, those still to visit on the right.
\<close>

definition removeById :: "ident \<Rightarrow> (portal \<times> bool) list \<Rightarrow> (portal \<times> bool) list" where
  "removeById i es = map (\<lambda>(q, kept). (q, kept \<and> p_id q \<noteq> i)) es"

function froggerLoop ::
  "real \<Rightarrow> (portal \<times> bool) list \<Rightarrow> (portal \<times> bool) list \<Rightarrow> (portal \<times> bool) list" where
  "froggerLoop deltaTime visited [] = visited"
| "froggerLoop deltaTime visited ((p, kept) # rest) =
     (if isMoving p then
        (let p1 = p\<lparr>p_x := p_x p + horizontalSpeed p * deltaTime\<rparr>
         in if p_x p1 > 12 / 10
            then froggerLoop deltaTime (removeById (p_id p1) (visited @ [(p1, kept)]))
                   (removeById (p_id p1) rest)
            else (let p2 = p1\<lparr>p_position :=
                                (if p_x p1 > 3 / 10 \<and> p_x p1 < 7 / 10 then Active
                                 else Approach)\<rparr>;
                      p3 = p2\<lparr>beatMatch := (p_position p2 = Active)\<rparr>
                  in froggerLoop deltaTime (visited @ [(p3, kept)]) rest))
      else froggerLoop deltaTime (visited @ [(p, kept)]) rest)"
  by pat_completeness auto
termination
  by (relation "measure (\<lambda>(d, visited, rest). length rest)") (auto simp: removeById_def)

text \<open>\<open>froggerMove\<close> is the \<open>forEach\<close> of \<open>updateFroggerPortals\<close>, the spawn policy follows it.\<close>

definition froggerMove :: "real \<Rightarrow> engine \<Rightarrow> engine" where
  "froggerMove deltaTime s =
     (let es = froggerLoop deltaTime [] (map (\<lambda>p. (p, True)) (portals s))
      in s\<lparr>portals := map fst (filter snd es)\<rparr>)"

definition updateFroggerPortals :: "real \<Rightarrow> tickEnv \<Rightarrow> engine \<Rightarrow> engine" where
  "updateFroggerPortals deltaTime env s = spawnPortals deltaTime env (froggerMove deltaTime s)"

section \<open>Beat scheduler and the tick\<close>

definition playBeatSound :: "engine \<Rightarrow> engine" where
  "playBeatSound s =
     (if \<not> audioEnabled s then s
      else if currentBeat s mod 4 = 0 then playSound ''bass_drum_thud.mp3'' (8 / 10) s
      else if currentBeat s mod 2 = 0 then playSound ''snare_drum_crack.mp3'' (7 / 10) s
      else playSound ''hi_hat_tinkle.mp3'' (5 / 10) s)"

definition createBeatPulseEffect :: "real \<Rightarrow> engine \<Rightarrow> engine" where
  "createBeatPulseEffect now s =
     (let beatType = (if currentBeat s mod 4 = 0 then Bass
                      else if currentBeat s mod 2 = 0 then Snare else Hihat)
      in s\<lparr>visualEffects := visualEffects s @
           [\<lparr>e_id = Ident ''beat'' [now], e_type = Beat_pulse,
             e_position = (5 / 10, 5 / 10, 0), startTime = now, duration = 300,
             e_data = BeatData beatType\<rparr>]\<rparr>)"

definition updateBeatSystem :: "real \<Rightarrow> tickEnv \<Rightarrow> engine \<Rightarrow> engine" where
  "updateBeatSystem deltaTime env s =
     (if beatTimer s \<ge> beatInterval s then
        (let s1 = s\<lparr>beatTimer := 0, currentBeat := currentBeat s + 1\<rparr>;
             s2 = playBeatSound s1;
             s3 = spawnPortalOnBeat env s2
         in createBeatPulseEffect (clock env) s3)
      else s)"

definition updateVisualEffects :: "real \<Rightarrow> real \<Rightarrow> engine \<Rightarrow> engine" where
  "updateVisualEffects deltaTime now s =
     s\<lparr>visualEffects :=
         filter (\<lambda>effect. (now - startTime effect) / duration effect \<le> 1) (visualEffects s)\<rparr>"

definition updateLevelProgress :: "real \<Rightarrow> engine \<Rightarrow> engine" where
  "updateLevelProgress now s =
     (case getCurrentLevel s of
        None \<Rightarrow> s
      | Some currentLevel \<Rightarrow>
          if status (gameState s) \<noteq> Playing then s
          else
            (let elapsedTime = (now - levelStartTime s) / 1000;
                 timeProgress = elapsedTime / timeLimit currentLevel * 100;
                 hitProgress = real_of_int (portalsHit (gameState s))
                                 / real_of_int (requiredHits currentLevel) * 100;
                 combinedProgress = max hitProgress (timeProgress * (7 / 10))
             in s\<lparr>gameState := (gameState s)\<lparr>levelProgress := min combinedProgress 100\<rparr>\<rparr>))"

definition update :: "real \<Rightarrow> tickEnv \<Rightarrow> engine \<Rightarrow> engine" where
  "update deltaTime env s =
     (let s1 = s\<lparr>gameTime := gameTime s + deltaTime\<rparr>;
          s2 = s1\<lparr>beatTimer := beatTimer s1 + deltaTime * 1000\<rparr>;
          s3 = updateBeatSystem deltaTime env s2;
          s4 = updateFroggerPortals deltaTime env s3;
          s5 = updateWhips deltaTime s4;
          s6 = updateVisualEffects deltaTime (clock env) s5;
          s7 = checkCollisions (clock env) (hitRoll env) s6;
          s8 = updateLevelProgress (clock env) s7
      in s8\<lparr>gameState := (gameState s8)\<lparr>currentSongProgress := gameTime s8 / 60 * 100\<rparr>\<rparr>)"


section \<open>Firing a whip\<close>

text \<open>What the input manager answers when the engine asks at fire time.\<close>

record inputReading =
  hasActiveTouch :: bool
  getCurrentTouchSpeed :: real
  getTouchVelocity :: point
  getAverageCursorSpeed :: real
  getCursorVelocity :: point

definition createWavePattern :: "real \<Rightarrow> point \<Rightarrow> real \<Rightarrow> wavePattern" where
  "createWavePattern cursorSpeed' cursorVelocity r =
     (let speedFactor = min (cursorSpeed' / 1000) 2
      in \<lparr>amplitude = 20 + speedFactor * 30, wp_frequency = 2 + speedFactor * 3,
          phase = r * pi * 2, decay = 8 / 10,
          waveType = (if speedFactor > 1 then Sawtooth else Sine)\<rparr>)"

definition createTouchVisualFeedback :: "real \<Rightarrow> point \<Rightarrow> bool \<Rightarrow> engine \<Rightarrow> engine" where
  "createTouchVisualFeedback now pos isTouchInput s =
     (if isTouchInput then
        s\<lparr>visualEffects := visualEffects s @
           [\<lparr>e_id = Ident ''touch_feedback'' [now], e_type = Particle,
             e_position = (fst pos / canvasWidth s, snd pos / canvasHeight s, 0),
             startTime = now, duration = 300,
             e_data = TouchPulseData ''touch_pulse'' ''#00FFFF'' 8\<rparr>]\<rparr>
      else s)"

text \<open>
  \<open>fireWhip target inp now (rPhase, rCx, rCy) s\<close>: the three draws are the wave's phase
  and the two offsets of the trajectory's control point.
\<close>

definition fireWhip ::
  "point \<Rightarrow> inputReading \<Rightarrow> real \<Rightarrow> real \<times> real \<times> real \<Rightarrow> engine \<Rightarrow> engine" where
  "fireWhip target inp now rs s =
     (if status (gameState s) \<noteq> Playing then s
      else
        (let (rPhase, rCx, rCy) = rs;
             canvasCenter = (canvasWidth s / 2, canvasHeight s / 2);
             isTouchInput = hasActiveTouch inp;
             cursorSpeed' = (if isTouchInput then getCurrentTouchSpeed inp
                             else getAverageCursorSpeed inp);
             cursorVelocity = (if isTouchInput then getTouchVelocity inp
                               else getCursorVelocity inp);
             wave = createWavePattern cursorSpeed' cursorVelocity rPhase;
             traj = \<lparr>t_start = canvasCenter,
                     t_control = ((fst canvasCenter + fst target) / 2 + (rCx - 5 / 10) * 200,
                                  (snd canvasCenter + snd target) / 2 + (rCy - 5 / 10) * 200),
                     t_end = target\<rparr>;
             speedFactor = min (cursorSpeed' / 500) 2;
             whipVelocity = 5 / 10 + speedFactor * (5 / 10);
             newWhip =
               \<lparr>w_id = Ident ''whip'' [now], w_position = canvasCenter,
                targetPosition = target, trajectory = traj, velocity = whipVelocity,
                isActive = True, isExtending = True, extensionProgress = 0,
                trailPoints = [], cosmicEnergy = 1, whipLength = 0, whipAngle = 0,
                createdTime = now, hitDetection = True, w_wavePattern = wave,
                cursorSpeed = cursorSpeed'\<rparr>;
             s1 = s\<lparr>activeWhips := activeWhips s @ [newWhip]\<rparr>;
             whipSound = (if speedFactor > 1 then ''heavy_whip_crack.mp3''
                          else ''light_whip_crack.mp3'');
             s2 = playSound whipSound (7 / 10) s1;
             s3 = createTouchVisualFeedback now target isTouchInput s2
         in s3\<lparr>visualEffects := visualEffects s3 @
               [\<lparr>e_id = Ident ''whip_trail'' [now], e_type = Wave_trail,
                 e_position = (fst target / canvasWidth s3, snd target / canvasHeight s3, 0),
                 startTime = now, duration = 1000,
                 e_data = WaveTrailData wave speedFactor isTouchInput\<rparr>]\<rparr>))"

section \<open>The advance of the specification\<close>


definition spec_advancePortal :: "real \<Rightarrow> portal \<Rightarrow> portal" where
  "spec_advancePortal d p =
     (if isMoving p then
        p\<lparr>p_x := p_x p + horizontalSpeed p * d,
          p_position := (if 3 / 10 < p_x p + horizontalSpeed p * d
                            \<and> p_x p + horizontalSpeed p * d < 7 / 10 then Active else Approach),
          beatMatch := (3 / 10 < p_x p + horizontalSpeed p * d
                          \<and> p_x p + horizontalSpeed p * d < 7 / 10)\<rparr>
      else p)"



section \<open>Timing judge\<close>

text \<open>
  C2, as stated, fails: a beat-matched portal hit 150 ms off its target time is judged
  \<open>hit\<close> with base score 400, not \<open>miss\<close> with 0.
\<close>

theorem judge_beatMatch_late_counterexample:
  "(100::real) < 150 \<and> judge True 150 = (Hit, 400)"
  by (simp add: judge_def)

text \<open>
  C2 (amended): in the live hit-resolution path, a portal with beatMatch true and an
  absolute time difference strictly greater than 100 ms falls through to the standard
  windows: quality \<open>hit\<close> with base score 400 up to 200 ms, and quality \<open>miss\<close> with base
  score 0 beyond 200 ms.
\<close>

theorem judge_beatMatch_late:
  "100 < timeDiff \<Longrightarrow>
     judge True timeDiff = (if timeDiff \<le> 200 then (Hit, 400) else (Miss, 0))"
  by (simp add: judge_def)

theorem judge_beatMatch_late_witness:
  "(100::real) < 250 \<and> judge True 250 = (Miss, 0)"
  using judge_beatMatch_late [of 250] by simp

section \<open>Score, combo and health\<close>

text \<open>
  C1 (the code at the failing input): with a combo of 5, the miss handler leaves the
  score alone and takes one point of health, but the combo is still 5 afterwards:
  \<open>updateCombo 0\<close> adds 0 to the combo, it does not reset it. And the live path does not
  reach the miss handler: a hit resolved 250 ms off the target time is judged \<open>miss\<close> and
  leaves the engine as it was.
\<close>

theorem handlePortalMiss_keeps_combo:
  "combo (gameState (snd (handlePortalMiss now r p
      ((newGameEngine 800 600)\<lparr>gameState := (gameState (newGameEngine 800 600))\<lparr>combo := 5\<rparr>\<rparr>))))
     = 5
   \<and> score (gameState (snd (handlePortalMiss now r p
      ((newGameEngine 800 600)\<lparr>gameState := (gameState (newGameEngine 800 600))\<lparr>combo := 5\<rparr>\<rparr>))))
     = 0
   \<and> health (gameState (snd (handlePortalMiss now r p
      ((newGameEngine 800 600)\<lparr>gameState := (gameState (newGameEngine 800 600))\<lparr>combo := 5\<rparr>\<rparr>))))
     = 99
   \<and> judge bm 250 = (Miss, 0)
   \<and> handlePortalHit 2250 r (p\<lparr>targetTime := 2000\<rparr>) i
        ((newGameEngine 800 600)\<lparr>gameState := (gameState (newGameEngine 800 600))\<lparr>combo := 5\<rparr>\<rparr>)
     = (newGameEngine 800 600)\<lparr>gameState := (gameState (newGameEngine 800 600))\<lparr>combo := 5\<rparr>\<rparr>"
  by (simp add: handlePortalMiss_def Let_def updateCombo_def updateHealth_def playSound_def
      createMissEffect_def newGameEngine_def endGame_def stopAll_def handlePortalHit_def
      judge_def)

lemma comboMultiplier_mono: "c \<le> c' \<Longrightarrow> comboMultiplier c \<le> comboMultiplier c'"
  by (simp add: comboMultiplier_def min_def)



text \<open>
  C9: after every health update the health lies in [0, 100], and when the update brings
  the health to 0 the status is \<open>gameover\<close>, whatever it was before.
\<close>

theorem updateHealth_range_gameover:
  "0 \<le> health (gameState (updateHealth change s)) \<and>
   health (gameState (updateHealth change s)) \<le> 100 \<and>
   (health (gameState (updateHealth change s)) = 0 \<longrightarrow>
      status (gameState (updateHealth change s)) = Gameover)"
  by (auto simp: updateHealth_def Let_def endGame_def stopAll_def)

theorem updateHealth_range_gameover_witness:
  "health (gameState (updateHealth (- 1) ((newGameEngine 800 600)
      \<lparr>gameState := (gameState (newGameEngine 800 600))\<lparr>status := Paused, health := 1\<rparr>\<rparr>))) = 0
   \<and> status (gameState (updateHealth (- 1) ((newGameEngine 800 600)
      \<lparr>gameState := (gameState (newGameEngine 800 600))\<lparr>status := Paused, health := 1\<rparr>\<rparr>)))
       = Gameover"
  using updateHealth_range_gameover [of "- 1" "(newGameEngine 800 600)
      \<lparr>gameState := (gameState (newGameEngine 800 600))\<lparr>status := Paused, health := 1\<rparr>\<rparr>"]
  by (simp add: updateHealth_def Let_def newGameEngine_def endGame_def stopAll_def)

section \<open>Firing a whip outside play\<close>

text \<open>
  C10: when the status is not \<open>playing\<close>, firing is a no-op: the engine (whips, visual
  effects, game state, audio log and all) is returned as it was.
\<close>

theorem fireWhip_not_playing:
  "status (gameState s) \<noteq> Playing \<Longrightarrow> fireWhip target inp now rs s = s"
  by (simp add: fireWhip_def)

theorem fireWhip_not_playing_witness:
  "status (gameState (newGameEngine 800 600)) \<noteq> Playing
   \<and> fireWhip (100, 200)
        \<lparr>hasActiveTouch = False, getCurrentTouchSpeed = 0, getTouchVelocity = (0, 0),
         getAverageCursorSpeed = 300, getCursorVelocity = (3, 4)\<rparr>
        1000 (0, 1 / 2, 1 / 2) (newGameEngine 800 600) = newGameEngine 800 600"
  using fireWhip_not_playing [of "newGameEngine 800 600" "(100, 200)"
        "\<lparr>hasActiveTouch = False, getCurrentTouchSpeed = 0, getTouchVelocity = (0, 0),
         getAverageCursorSpeed = 300, getCursorVelocity = (3, 4)\<rparr>" 1000 "(0, 1 / 2, 1 / 2)"]
  by (simp add: newGameEngine_def)

section \<open>Whip extension\<close>








section \<open>What a tick leaves alone\<close>

lemma frame_audio [simp]:
  "gameTime (playSound n v s) = gameTime s" "portals (playSound n v s) = portals s"
  "gameTime (playMusic n v s) = gameTime s" "portals (playMusic n v s) = portals s"
  "gameTime (stopAll s) = gameTime s" "portals (stopAll s) = portals s"
  "gameTime (setTimeout cb dl s) = gameTime s" "portals (setTimeout cb dl s) = portals s"
  by (simp_all add: playSound_def playMusic_def stopAll_def setTimeout_def)

lemma frame_handleScore [simp]:
  "gameTime (handleScore q b s) = gameTime s" "portals (handleScore q b s) = portals s"
  by (simp_all add: handleScore_def updateCombo_def Let_def)

lemma frame_triggerLevelTransition [simp]:
  "gameTime (triggerLevelTransition now s) = gameTime s"
  "portals (triggerLevelTransition now s) = portals s"
  by (simp_all add: triggerLevelTransition_def Let_def)

lemma frame_checkLevelCompletion [simp]:
  "gameTime (checkLevelCompletion now s) = gameTime s"
  "portals (checkLevelCompletion now s) = portals s"
  by (simp_all add: checkLevelCompletion_def Let_def split: option.split)

lemma frame_triggerPortalTravel [simp]:
  "gameTime (snd (triggerPortalTravel now p s)) = gameTime s"
  "portals (snd (triggerPortalTravel now p s)) = portals s"
  "p_id (fst (triggerPortalTravel now p s)) = p_id p"
  by (simp_all add: triggerPortalTravel_def Let_def split: option.split)

lemma frame_createHitEffect [simp]:
  "gameTime (createHitEffect now r p q s) = gameTime s"
  "portals (createHitEffect now r p q s) = portals s"
  by (simp_all add: createHitEffect_def)

lemma gameTime_handlePortalHit [simp]:
  "gameTime (handlePortalHit now r p i s) = gameTime s"
  by (simp add: handlePortalHit_def Let_def case_prod_beta)






lemma frame_small [simp]:
  "gameTime (updateLevelProgress now s) = gameTime s"
  "portals (updateLevelProgress now s) = portals s"
  "gameTime (updateVisualEffects d now s) = gameTime s"
  "portals (updateVisualEffects d now s) = portals s"
  "gameTime (updateWhips d s) = gameTime s"
  "portals (updateWhips d s) = portals s"
  "gameTime (playBeatSound s) = gameTime s"
  "portals (playBeatSound s) = portals s"
  "gameTime (createBeatPulseEffect now s) = gameTime s"
  "portals (createBeatPulseEffect now s) = portals s"
  "gameTime (froggerMove d s) = gameTime s"
  by (simp_all add: updateLevelProgress_def updateVisualEffects_def updateWhips_def
      playBeatSound_def createBeatPulseEffect_def froggerMove_def Let_def split: option.split)

lemma frame_spawnRandomPortal:
  "gameTime (spawnRandomPortal now sr s) = gameTime s"
  "\<exists>q. portals (spawnRandomPortal now sr s) = portals s @ [q]
       \<and> p_id q = Ident ''portal'' [now, rId sr]"
  by (simp_all add: spawnRandomPortal_def Let_def split: prod.split)



lemma gameTime_spawns [simp]:
  "gameTime (spawnRandomPortal now sr s) = gameTime s"
  "gameTime (spawnPortals d env s) = gameTime s"
  "gameTime (spawnPortalOnBeat env s) = gameTime s"
  "gameTime (updateBeatSystem d env s) = gameTime s"
  "gameTime (updateFroggerPortals d env s) = gameTime s"
  by (simp_all add: frame_spawnRandomPortal(1) spawnPortals_def spawnPortalOnBeat_def
      updateBeatSystem_def updateFroggerPortals_def Let_def split: option.split)



section \<open>Negative deltaTime\<close>




section \<open>Portals on the move\<close>


lemma fst_removeById [simp]: "map fst (removeById i es) = map fst es"
  by (induction es) (auto simp: removeById_def)


lemma p_id_spec_advancePortal [simp]: "p_id (spec_advancePortal d p) = p_id p"
  by (simp add: spec_advancePortal_def)













section \<open>Deferred level transition\<close>

text \<open>
  C3 (the code at the failing input): level 1 is completed with ten hits, which schedules
  \<open>proceedToNextLevel\<close> three seconds later; the player restarts, which puts the engine
  back to the menu with score 0 and level 1 and leaves the timer pending; when the timer
  fires, \<open>proceedToNextLevel\<close> acts without looking at the status: bonus 1000, level 2 and
  status \<open>playing\<close>.
\<close>

theorem proceedToNextLevel_after_restart:
  "(let s1 = checkLevelCompletion 5000
               ((startGame 0 (newGameEngine 800 600))
                  \<lparr>gameState := (gameState (startGame 0 (newGameEngine 800 600)))
                     \<lparr>portalsHit := 10, portalsTotal := 10\<rparr>\<rparr>);
        s2 = restartGame s1;
        s3 = runCallback CallProceedToNextLevel 8000 0 s2
    in status (gameState s1) = Level_complete
       \<and> timers s2 = [(3000, CallProceedToNextLevel)]
       \<and> status (gameState s2) = Menu \<and> score (gameState s2) = 0 \<and> level (gameState s2) = 1
       \<and> status (gameState s3) = Playing \<and> score (gameState s3) = 1000
       \<and> level (gameState s3) = 2 \<and> currentLevelIndex s3 = 1)"
  by (simp add: Let_def checkLevelCompletion_def triggerLevelTransition_def startGame_def
      newGameEngine_def restartGame_def proceedToNextLevel_def getCurrentLevel_def levels_def
      playMusic_def playSound_def setTimeout_def stopAll_def updateCurrentLevel_def
      changeDimension_def cong: let_weak_cong)

section \<open>One whip, two portals\<close>

lemma sqrt_less_radius: "0 < r \<Longrightarrow> (sqrt a < r) = (a < r ^ 2)"
proof -
  assume r: "0 < r"
  have "(sqrt a < r) = (sqrt a < sqrt (r ^ 2))" using r by simp
  also have "\<dots> = (a < r ^ 2)" by (rule real_sqrt_less_iff)
  finally show ?thesis .
qed

text \<open>
  C4 (the code at the failing input): two bass portals spawned at the same instant in
  the same lane reach x = 0.4 two seconds later; a whip fired at them a quarter of a
  second earlier is halfway along its trajectory, 40 pixels from both, inside the hit
  radius of 51.2 pixels. The collision pass of that one tick registers two hits for the
  one whip: both portals are removed and scored, and only then is the whip's hit
  detection off.
\<close>

theorem whip_hits_two_portals:
  "(let s0 = startGame 0 (newGameEngine 800 600);
        s1 = spawnRandomPortal 0
               \<lparr>rType = 0, rLane = 4 / 10, rJitter = 5 / 10, rId = 1 / 10, rSpeed = 2 / 3,
                rFreq = 0\<rparr> s0;
        s2 = spawnRandomPortal 0
               \<lparr>rType = 0, rLane = 4 / 10, rJitter = 5 / 10, rId = 2 / 10, rSpeed = 2 / 3,
                rFreq = 0\<rparr> s1;
        s3 = froggerMove (7 / 4) s2;
        s4 = fireWhip (320, 300)
               \<lparr>hasActiveTouch = False, getCurrentTouchSpeed = 0, getTouchVelocity = (0, 0),
                getAverageCursorSpeed = 0, getCursorVelocity = (0, 0)\<rparr>
               1750 (0, 1 / 2, 1 / 2) s3;
        s5 = update (1 / 4)
               \<lparr>clock = 2000, beatRoll = 9 / 10,
          beatSpawn = \<lparr>rType = 0, rLane = 0, rJitter = 0, rId = 0, rSpeed = 0, rFreq = 0\<rparr>,
          timerSpawn = \<lparr>rType = 0, rLane = 0, rJitter = 0, rId = 0, rSpeed = 0, rFreq = 0\<rparr>,
          hitRoll = 0\<rparr> s4
    in length (activeWhips s4) = 1 \<and> length (portals s4) = 2
       \<and> portalsHit (gameState s4) = 0
       \<and> portalsHit (gameState s5) = 2 \<and> portals s5 = [] \<and> score (gameState s5) = 3030
       \<and> map hitDetection (activeWhips s5) = [False])"
  by (simp add: Let_def startGame_def newGameEngine_def spawnRandomPortal_def pick3_def
      getCurrentLevel_def levels_def playMusic_def playSound_def froggerMove_def removeById_def
      fireWhip_def createWavePattern_def createTouchVisualFeedback_def update_def
      updateBeatSystem_def updateFroggerPortals_def spawnPortals_def updateWhips_def
      updateWhip_def updateVisualEffects_def checkCollisions_def handlePortalHit_def judge_def
      handleScore_def comboMultiplier_def updateCombo_def triggerPortalTravel_def
      createHitEffect_def checkLevelCompletion_def updateLevelProgress_def
      isWhipCollidingWithPortal_def getWhipCurrentPosition_def sqrt_less_radius
      power2_eq_square cong: let_weak_cong)

end
